theory Spec2Isabelle
  imports Main
begin

section \<open>Data model\<close>

text \<open>
  Go strings are byte sequences; they are modelled as \<^typ>\<open>string\<close> (lists of 8-bit
  characters).

  \<open>image.Reference\<close> (package \<open>pkg/image\<close>) with the five fields that the resolver reads
  or writes. Several structs of the program share field names (\<open>Registry\<close>, \<open>Username\<close>,
  \<open>Password\<close>); the records are declared in this order so that the unqualified names denote
  the fields of \<open>RegistryCredential\<close>, and the fields of the other records are written
  with their record name in front.
\<close>

record Reference =
  Registry :: string
  Repository :: string
  Tag :: string
  Digest :: string
  Reference :: string

text \<open>
  An entry of \<open>graph.RegistryLoginCredentials\<close>, a Go map from registry host to login
  credential. The type is declared in package \<open>graph\<close> outside the two files at hand; of
  an entry the resolver reads \<open>Username.ResolvedValue\<close> and \<open>Password.ResolvedValue\<close>
  only, and an entry of the table and its two secrets are taken to be present (non-nil).
\<close>

record Secret =
  ResolvedValue :: string

record RegistryLoginCredential =
  Username :: Secret
  Password :: Secret

type_synonym RegistryLoginCredentials = "string \<rightharpoonup> RegistryLoginCredential"

record remoteDigest =
  registryCreds :: RegistryLoginCredentials

record RegistryCredential =
  Registry :: string
  Username :: string
  UsernameType :: string
  Password :: string
  PasswordType :: string
  Identity :: string
  ArmResource :: string

section \<open>Registry credentials (graph/registry\_credential.go)\<close>

text \<open>
  The six package-level error values and the wrapped decoding error become the
  constructors of one datatype.
\<close>

datatype cred_error =
    errUnmarshal string
  | errInvalidRegName
  | errInvalidUsername
  | errInvalidPassword
  | errInvalidIdentity
  | errInvalidArmResourceID
  | errCouldNotClassify

definition Opaque :: string where
  "Opaque = ''opaque''"

definition VaultSecret :: string where
  "VaultSecret = ''vaultsecret''"

text \<open>
  \<open>strings.ToLower\<close>, as the Go library has it. A string all of whose bytes are below
  \<open>utf8.RuneSelf\<close> (128) takes the ASCII path: the capitals \<open>A\<close>..\<open>Z\<close> (bytes 65..90) are
  moved to \<open>a\<close>..\<open>z\<close> and every other byte is kept. Any other string is handed to
  \<open>strings.Map(unicode.ToLower, s)\<close>, which decodes UTF-8 and consults the Unicode case
  tables of the library; that function is the parameter \<open>MapToLower\<close>.
\<close>

definition isASCII :: "string \<Rightarrow> bool" where
  "isASCII s = list_all (\<lambda>c. (of_char c :: nat) < 128) s"

definition toLowerByte :: "char \<Rightarrow> char" where
  "toLowerByte c =
     (let n = (of_char c :: nat) in if 65 \<le> n \<and> n \<le> 90 then char_of (n + 32) else c)"

definition ToLower :: "(string \<Rightarrow> string) \<Rightarrow> string \<Rightarrow> string" where
  "ToLower MapToLower s = (if isASCII s then map toLowerByte s else MapToLower s)"

text \<open>
  \<open>CreateRegistryCredentialFromString\<close>. The JSON codec is an external library: it is the
  parameter \<open>unmarshal\<close>, which either fails with a message or yields the decoded struct
  (absent keys decode to the empty string).
\<close>

definition CreateRegistryCredentialFromString ::
  "(string \<Rightarrow> string) \<Rightarrow> (string \<Rightarrow> string + RegistryCredential) \<Rightarrow> string \<Rightarrow>
   cred_error + RegistryCredential" where
  "CreateRegistryCredentialFromString MapToLower unmarshal str =
     (case unmarshal str of
        Inl err \<Rightarrow> Inl (errUnmarshal err)
      | Inr cred \<Rightarrow>
          (let usernameType = ToLower MapToLower (UsernameType cred);
               passwordType = ToLower MapToLower (PasswordType cred)
           in if Registry cred = '''' then Inl errInvalidRegName
              else
                (let isOpaque = (usernameType = Opaque \<and> passwordType = Opaque);
                     hasVaultSecret = (usernameType = VaultSecret \<or> passwordType = VaultSecret);
                     isMSI = (usernameType = '''' \<and> passwordType = '''')
                 in if isOpaque then
                      (if Username cred = '''' then Inl errInvalidUsername
                       else if Password cred = '''' then Inl errInvalidPassword
                       else Inr \<lparr>Registry = Registry cred,
                                 Username = Username cred,
                                 UsernameType = usernameType,
                                 Password = Password cred,
                                 PasswordType = passwordType,
                                 Identity = '''',
                                 ArmResource = ''''\<rparr>)
                    else if hasVaultSecret then
                      (if Username cred = '''' then Inl errInvalidUsername
                       else if Password cred = '''' then Inl errInvalidPassword
                       else if Identity cred = '''' then Inl errInvalidIdentity
                       else Inr \<lparr>Registry = Registry cred,
                                 Username = Username cred,
                                 UsernameType = usernameType,
                                 Password = Password cred,
                                 PasswordType = passwordType,
                                 Identity = Identity cred,
                                 ArmResource = ''''\<rparr>)
                    else if isMSI then
                      (if Identity cred = '''' then Inl errInvalidIdentity
                       else if ArmResource cred = '''' then Inl errInvalidArmResourceID
                       else Inr \<lparr>Registry = Registry cred,
                                 Username = '''',
                                 UsernameType = '''',
                                 Password = '''',
                                 PasswordType = '''',
                                 Identity = Identity cred,
                                 ArmResource = ArmResource cred\<rparr>)
                    else Inl errCouldNotClassify)))"

section \<open>Remote digest resolution (builder/digest\_remote.go)\<close>

text \<open>
  The three error returns of \<open>PopulateDigest\<close> and \<open>getReferencePath\<close>: the formatted
  credential error carries the registry; the two wrapped errors carry \<open>ref.Reference\<close>
  and the message of the error they wrap.
\<close>

datatype digest_error =
    errFetchingCredentials string
  | errFailedToParse string string
  | errFailedToResolve string string

text \<open>
  \<open>docker.ResolverOptions\<close>: the \<open>Credentials\<close> callback is absent (nil) or a function of
  the host name returning user name and secret (its error result is always nil here).
  The \<open>Client\<close> field is always \<open>http.DefaultClient\<close> and is left out.
\<close>

record ResolverOptions =
  Credentials :: "(string \<Rightarrow> string \<times> string) option"

text \<open>
  The part of the world a call can touch: the receiver \<open>d\<close>, the object the pointer
  \<open>ref\<close> designates (\<open>None\<close> for a nil pointer), and the log of the calls made to the
  registry resolver (context, options, reference), oldest first.
\<close>

record 'ctx world =
  receiver :: remoteDigest
  target :: "Reference option"
  resolveCalls :: "('ctx \<times> ResolverOptions \<times> string) list"

text \<open>
  \<open>getReferencePath\<close>. \<open>Parse\<close> stands for \<open>reference.Parse\<close> followed by \<open>String()\<close> of
  the parsed reference: the canonical string, or the message of the parse error.
\<close>

definition getReferencePath ::
  "(string \<Rightarrow> string + string) \<Rightarrow> Reference \<Rightarrow> digest_error + string" where
  "getReferencePath Parse ref =
     (let fullRefPath = Reference.Registry ref @ ''/'' @ Repository ref;
          tag = (if Tag ref \<noteq> '''' then Tag ref else ''latest'');
          fullRefPath = fullRefPath @ '':'' @ tag
      in case Parse fullRefPath of
           Inl err \<Rightarrow> Inl (errFailedToParse (Reference ref) err)
         | Inr fullRef \<Rightarrow> Inr fullRef)"

text \<open>
  Lines 37 to 49 of \<open>PopulateDigest\<close>: the resolver options, with the credential callback
  when the table has an entry for the registry. The callback ignores its host argument.
\<close>

definition resolverOptions :: "remoteDigest \<Rightarrow> Reference \<Rightarrow> digest_error + ResolverOptions" where
  "resolverOptions d ref =
     (case registryCreds d (Reference.Registry ref) of
        Some cred \<Rightarrow>
          if ResolvedValue (RegistryLoginCredential.Username cred) = '''' \<or>
             ResolvedValue (RegistryLoginCredential.Password cred) = ''''
          then Inl (errFetchingCredentials (Reference.Registry ref))
          else Inr \<lparr>Credentials = Some (\<lambda>hostName.
                 (ResolvedValue (RegistryLoginCredential.Username cred),
                  ResolvedValue (RegistryLoginCredential.Password cred)))\<rparr>
      | None \<Rightarrow> Inr \<lparr>Credentials = None\<rparr>)"

text \<open>
  \<open>PopulateDigest\<close>. The constant \<open>NoBaseImageSpecifierLatest\<close> is declared elsewhere in
  the package and is a parameter. \<open>Resolve\<close> stands for \<open>docker.NewResolver(opts).Resolve\<close>
  followed by \<open>desc.Digest.String()\<close>: the digest string, or the message of the error
  (a cancelled context is one of its errors). Building the resolver makes no call; each
  call of \<open>Resolve\<close> is appended to the log.
\<close>

definition PopulateDigest ::
  "string \<Rightarrow> (string \<Rightarrow> string + string) \<Rightarrow>
   ('ctx \<Rightarrow> ResolverOptions \<Rightarrow> string \<Rightarrow> string + string) \<Rightarrow>
   'ctx \<Rightarrow> 'ctx world \<Rightarrow> digest_error option \<times> 'ctx world" where
  "PopulateDigest NoBaseImageSpecifierLatest Parse Resolve ctx w =
     (case target w of
        None \<Rightarrow> (None, w)
      | Some ref \<Rightarrow>
          if Digest ref \<noteq> '''' then (None, w)
          else if Reference ref = NoBaseImageSpecifierLatest then (None, w)
          else
            (case resolverOptions (receiver w) ref of
               Inl err \<Rightarrow> (Some err, w)
             | Inr opts \<Rightarrow>
                 (case getReferencePath Parse ref of
                    Inl err \<Rightarrow> (Some err, w)
                  | Inr imageRef \<Rightarrow>
                      (let w1 = w\<lparr>resolveCalls := resolveCalls w @ [(ctx, opts, imageRef)]\<rparr>
                       in case Resolve ctx opts imageRef of
                            Inl err \<Rightarrow> (Some (errFailedToResolve (Reference ref) err), w1)
                          | Inr dgst \<Rightarrow>
                              (None, w1\<lparr>target := Some (ref\<lparr>Digest := dgst\<rparr>)\<rparr>)))))"

section \<open>Properties of the credential classification\<close>

lemma ToLower_Nil [simp]: "ToLower MapToLower [] = []"
  by (simp add: ToLower_def isASCII_def)

lemma shape_tags_distinct [simp]:
  "Opaque \<noteq> VaultSecret" "VaultSecret \<noteq> Opaque"
  "Opaque \<noteq> []" "VaultSecret \<noteq> []" "[] \<noteq> Opaque" "[] \<noteq> VaultSecret"
  by (simp_all add: Opaque_def VaultSecret_def)

text \<open>
  C1. Whenever the input decodes to a struct with a non-empty registry whose two type
  fields both lowercase to \<open>opaque\<close>, the result is: the username error if the username is
  empty, else the password error if the password is empty, else a credential with the
  registry, username and password of the input, both type tags \<open>opaque\<close>, and empty
  identity and armResource. Hence the call succeeds exactly when username and password
  are both non-empty.
\<close>

theorem opaque_classification:
  assumes "unmarshal str = Inr cred"
    and "Registry cred \<noteq> ''''"
    and "ToLower MapToLower (UsernameType cred) = ''opaque''"
    and "ToLower MapToLower (PasswordType cred) = ''opaque''"
  shows "CreateRegistryCredentialFromString MapToLower unmarshal str =
           (if Username cred = '''' then Inl errInvalidUsername
            else if Password cred = '''' then Inl errInvalidPassword
            else Inr \<lparr>Registry = Registry cred, Username = Username cred,
                      UsernameType = ''opaque'', Password = Password cred,
                      PasswordType = ''opaque'', Identity = '''', ArmResource = ''''\<rparr>) \<and>
         ((\<exists>r. CreateRegistryCredentialFromString MapToLower unmarshal str = Inr r) \<longleftrightarrow>
           Username cred \<noteq> '''' \<and> Password cred \<noteq> '''')"
  using assms by (simp add: CreateRegistryCredentialFromString_def Opaque_def Let_def)

theorem opaque_classification_witness:
  "CreateRegistryCredentialFromString (\<lambda>s. s)
     (\<lambda>s. Inr \<lparr>Registry = ''r.io'', Username = ''u'', UsernameType = ''Opaque'',
               Password = ''p'', PasswordType = ''opaque'', Identity = ''me'',
               ArmResource = ''/sub/x''\<rparr>) ''{}'' =
   Inr \<lparr>Registry = ''r.io'', Username = ''u'', UsernameType = ''opaque'',
        Password = ''p'', PasswordType = ''opaque'', Identity = '''', ArmResource = ''''\<rparr>"
proof -
  let ?c = "\<lparr>Registry = ''r.io'', Username = ''u'', UsernameType = ''Opaque'',
               Password = ''p'', PasswordType = ''opaque'', Identity = ''me'',
               ArmResource = ''/sub/x''\<rparr>"
  let ?u = "\<lambda>s::string. (Inr ?c :: string + RegistryCredential)"
  have u: "ToLower (\<lambda>s. s) (UsernameType ?c) = ''opaque''" by code_simp
  have p: "ToLower (\<lambda>s. s) (PasswordType ?c) = ''opaque''" by code_simp
  from opaque_classification [where MapToLower = "\<lambda>s. s" and unmarshal = ?u and str = "''{}''" and cred = ?c] u p show ?thesis by simp
qed

text \<open>
  C2. Whenever the input decodes to a struct with a non-empty registry and at least one
  of the two lowercased type fields is \<open>vaultsecret\<close> (the other unconstrained), the result
  is: the username error, else the password error, else the identity error, for the first
  of these three fields that is empty; otherwise a credential with the registry, username,
  password and identity of the input, both lowercased type tags, and an empty armResource.
\<close>

theorem vaultsecret_classification:
  assumes "unmarshal str = Inr cred"
    and "Registry cred \<noteq> ''''"
    and "ToLower MapToLower (UsernameType cred) = ''vaultsecret'' \<or>
         ToLower MapToLower (PasswordType cred) = ''vaultsecret''"
  shows "CreateRegistryCredentialFromString MapToLower unmarshal str =
           (if Username cred = '''' then Inl errInvalidUsername
            else if Password cred = '''' then Inl errInvalidPassword
            else if Identity cred = '''' then Inl errInvalidIdentity
            else Inr \<lparr>Registry = Registry cred, Username = Username cred,
                      UsernameType = ToLower MapToLower (UsernameType cred), Password = Password cred,
                      PasswordType = ToLower MapToLower (PasswordType cred), Identity = Identity cred,
                      ArmResource = ''''\<rparr>)"
  using assms
  by (auto simp add: CreateRegistryCredentialFromString_def Opaque_def VaultSecret_def Let_def)

theorem vaultsecret_classification_witness:
  "CreateRegistryCredentialFromString
     (\<lambda>s. if s = [CHR 0xE2, CHR 0x84, CHR 0xAA] then ''k'' else s)
     (\<lambda>s. Inr \<lparr>Registry = ''r.io'', Username = ''kv/u'', UsernameType = ''VaultSecret'',
               Password = ''kv/p'', PasswordType = [CHR 0xE2, CHR 0x84, CHR 0xAA],
               Identity = ''me'', ArmResource = ''/sub/x''\<rparr>) ''{}'' =
   Inr \<lparr>Registry = ''r.io'', Username = ''kv/u'', UsernameType = ''vaultsecret'',
        Password = ''kv/p'', PasswordType = ''k'', Identity = ''me'', ArmResource = ''''\<rparr>"
proof -
  let ?c = "\<lparr>Registry = ''r.io'', Username = ''kv/u'', UsernameType = ''VaultSecret'',
               Password = ''kv/p'', PasswordType = [CHR 0xE2, CHR 0x84, CHR 0xAA],
               Identity = ''me'', ArmResource = ''/sub/x''\<rparr>"
  let ?u = "\<lambda>s::string. (Inr ?c :: string + RegistryCredential)"
  let ?m = "\<lambda>s::string. if s = [CHR 0xE2, CHR 0x84, CHR 0xAA] then ''k'' else s"
  have u: "ToLower ?m (UsernameType ?c) = ''vaultsecret''" by code_simp
  have p: "ToLower ?m (PasswordType ?c) = ''k''" by code_simp
  from vaultsecret_classification
         [where MapToLower = ?m and unmarshal = ?u and str = "''{}''" and cred = ?c] u p
  show ?thesis by simp
qed

text \<open>
  C3. Whenever the input decodes to a struct with an empty registry, the result is the
  registry error, whatever the other six fields hold.
\<close>

theorem missing_registry:
  assumes "unmarshal str = Inr cred"
    and "Registry cred = ''''"
  shows "CreateRegistryCredentialFromString MapToLower unmarshal str = Inl errInvalidRegName"
  using assms by (simp add: CreateRegistryCredentialFromString_def Let_def)

theorem missing_registry_witness:
  "CreateRegistryCredentialFromString (\<lambda>s. s)
     (\<lambda>s. Inr \<lparr>Registry = '''', Username = ''u'', UsernameType = ''opaque'',
               Password = ''p'', PasswordType = ''opaque'', Identity = ''me'',
               ArmResource = ''/sub/x''\<rparr>) ''{}'' = Inl errInvalidRegName"
proof -
  let ?c = "\<lparr>Registry = '''', Username = ''u'', UsernameType = ''opaque'',
               Password = ''p'', PasswordType = ''opaque'', Identity = ''me'',
               ArmResource = ''/sub/x''\<rparr>"
  let ?u = "\<lambda>s::string. (Inr ?c :: string + RegistryCredential)"
  from missing_registry [where MapToLower = "\<lambda>s. s" and unmarshal = ?u and str = "''{}''" and cred = ?c] show ?thesis by simp
qed

text \<open>
  C4. Whenever the input decodes to a struct with a non-empty registry whose two type
  fields are both empty, the result is: the identity error if the identity is empty, else
  the armResource error if the armResource is empty, else a credential holding the
  registry, identity and armResource of the input and nothing else: its username,
  password and both type tags are empty whatever the input held there.
\<close>

theorem msi_classification:
  assumes "unmarshal str = Inr cred"
    and "Registry cred \<noteq> ''''"
    and "UsernameType cred = ''''"
    and "PasswordType cred = ''''"
  shows "CreateRegistryCredentialFromString MapToLower unmarshal str =
           (if Identity cred = '''' then Inl errInvalidIdentity
            else if ArmResource cred = '''' then Inl errInvalidArmResourceID
            else Inr \<lparr>Registry = Registry cred, Username = '''', UsernameType = '''',
                      Password = '''', PasswordType = '''', Identity = Identity cred,
                      ArmResource = ArmResource cred\<rparr>)"
  using assms by (simp add: CreateRegistryCredentialFromString_def Let_def)

theorem msi_classification_witness:
  "CreateRegistryCredentialFromString (\<lambda>s. s)
     (\<lambda>s. Inr \<lparr>Registry = ''r.io'', Username = ''u'', UsernameType = '''',
               Password = ''p'', PasswordType = '''', Identity = ''me'',
               ArmResource = ''/sub/x''\<rparr>) ''{}'' =
   Inr \<lparr>Registry = ''r.io'', Username = '''', UsernameType = '''',
        Password = '''', PasswordType = '''', Identity = ''me'', ArmResource = ''/sub/x''\<rparr>"
proof -
  let ?c = "\<lparr>Registry = ''r.io'', Username = ''u'', UsernameType = '''',
               Password = ''p'', PasswordType = '''', Identity = ''me'',
               ArmResource = ''/sub/x''\<rparr>"
  let ?u = "\<lambda>s::string. (Inr ?c :: string + RegistryCredential)"
  from msi_classification [where MapToLower = "\<lambda>s. s" and unmarshal = ?u and str = "''{}''" and cred = ?c] show ?thesis by simp
qed

text \<open>
  C5. Whenever the input decodes to a struct with a non-empty registry whose lowercased
  type fields are not both \<open>opaque\<close>, are neither of them \<open>vaultsecret\<close>, and are not both
  empty, the result is the could-not-classify error, and so no credential is returned.
\<close>

theorem unclassifiable:
  assumes "unmarshal str = Inr cred"
    and "Registry cred \<noteq> ''''"
    and "\<not> (ToLower MapToLower (UsernameType cred) = ''opaque'' \<and> ToLower MapToLower (PasswordType cred) = ''opaque'')"
    and "ToLower MapToLower (UsernameType cred) \<noteq> ''vaultsecret''"
    and "ToLower MapToLower (PasswordType cred) \<noteq> ''vaultsecret''"
    and "\<not> (ToLower MapToLower (UsernameType cred) = '''' \<and> ToLower MapToLower (PasswordType cred) = '''')"
  shows "CreateRegistryCredentialFromString MapToLower unmarshal str = Inl errCouldNotClassify \<and>
         (\<nexists>r. CreateRegistryCredentialFromString MapToLower unmarshal str = Inr r)"
  using assms
  by (simp add: CreateRegistryCredentialFromString_def Opaque_def VaultSecret_def Let_def)

theorem unclassifiable_witness:
  "CreateRegistryCredentialFromString (\<lambda>s. s)
     (\<lambda>s. Inr \<lparr>Registry = ''r.io'', Username = ''u'', UsernameType = ''Opaque'',
               Password = ''p'', PasswordType = '''', Identity = ''me'',
               ArmResource = ''/sub/x''\<rparr>) ''{}'' = Inl errCouldNotClassify"
proof -
  let ?c = "\<lparr>Registry = ''r.io'', Username = ''u'', UsernameType = ''Opaque'',
               Password = ''p'', PasswordType = '''', Identity = ''me'',
               ArmResource = ''/sub/x''\<rparr>"
  let ?u = "\<lambda>s::string. (Inr ?c :: string + RegistryCredential)"
  have u: "ToLower (\<lambda>s. s) (UsernameType ?c) = ''opaque''" by code_simp
  from unclassifiable [where MapToLower = "\<lambda>s. s" and unmarshal = ?u and str = "''{}''" and cred = ?c] u show ?thesis by simp
qed

text \<open>
  C9. Whenever the input decodes to a struct with a non-empty registry, one lowercased
  type field is \<open>vaultsecret\<close> and the other lowercased type field is any string \<open>other\<close>
  (such as \<open>foo\<close>, or a string outside ASCII), the call never ends in the
  could-not-classify error. It takes the vault-secret branch: the result is the username
  error, else the password error, else the identity error, for the first of username,
  password and identity that is empty, and otherwise the credential with the registry,
  username, password and identity of the input, an empty armResource, the tag
  \<open>vaultsecret\<close> in the field that held it and the lowercased tag \<open>other\<close>, as it is, in the
  other field.
\<close>

theorem vaultsecret_with_any_other_tag:
  assumes "unmarshal str = Inr cred"
    and "Registry cred \<noteq> ''''"
    and "(ToLower MapToLower (UsernameType cred) = ''vaultsecret'' \<and>
          ToLower MapToLower (PasswordType cred) = other) \<or>
         (ToLower MapToLower (PasswordType cred) = ''vaultsecret'' \<and>
          ToLower MapToLower (UsernameType cred) = other)"
  shows "CreateRegistryCredentialFromString MapToLower unmarshal str \<noteq> Inl errCouldNotClassify \<and>
         (ToLower MapToLower (UsernameType cred) = ''vaultsecret'' \<and>
          ToLower MapToLower (PasswordType cred) = other \<longrightarrow>
            CreateRegistryCredentialFromString MapToLower unmarshal str =
              (if Username cred = '''' then Inl errInvalidUsername
               else if Password cred = '''' then Inl errInvalidPassword
               else if Identity cred = '''' then Inl errInvalidIdentity
               else Inr \<lparr>Registry = Registry cred, Username = Username cred,
                         UsernameType = ''vaultsecret'', Password = Password cred,
                         PasswordType = other, Identity = Identity cred,
                         ArmResource = ''''\<rparr>)) \<and>
         (ToLower MapToLower (PasswordType cred) = ''vaultsecret'' \<and>
          ToLower MapToLower (UsernameType cred) = other \<longrightarrow>
            CreateRegistryCredentialFromString MapToLower unmarshal str =
              (if Username cred = '''' then Inl errInvalidUsername
               else if Password cred = '''' then Inl errInvalidPassword
               else if Identity cred = '''' then Inl errInvalidIdentity
               else Inr \<lparr>Registry = Registry cred, Username = Username cred,
                         UsernameType = other, Password = Password cred,
                         PasswordType = ''vaultsecret'', Identity = Identity cred,
                         ArmResource = ''''\<rparr>))"
  using assms
  by (auto simp add: CreateRegistryCredentialFromString_def Opaque_def VaultSecret_def Let_def)

theorem vaultsecret_with_any_other_tag_witness:
  "CreateRegistryCredentialFromString
     (\<lambda>s. if s = [CHR 0xC3, CHR 0x89] then [CHR 0xC3, CHR 0xA9] else s)
     (\<lambda>s. Inr \<lparr>Registry = ''r.io'', Username = ''kv/u'', UsernameType = ''VaultSecret'',
               Password = ''kv/p'', PasswordType = [CHR 0xC3, CHR 0x89], Identity = ''me'',
               ArmResource = ''/sub/x''\<rparr>) ''{}'' =
   Inr \<lparr>Registry = ''r.io'', Username = ''kv/u'', UsernameType = ''vaultsecret'',
        Password = ''kv/p'', PasswordType = [CHR 0xC3, CHR 0xA9], Identity = ''me'',
        ArmResource = ''''\<rparr>"
proof -
  let ?c = "\<lparr>Registry = ''r.io'', Username = ''kv/u'', UsernameType = ''VaultSecret'',
               Password = ''kv/p'', PasswordType = [CHR 0xC3, CHR 0x89], Identity = ''me'',
               ArmResource = ''/sub/x''\<rparr>"
  let ?u = "\<lambda>s::string. (Inr ?c :: string + RegistryCredential)"
  let ?m = "\<lambda>s::string. if s = [CHR 0xC3, CHR 0x89] then [CHR 0xC3, CHR 0xA9] else s"
  have u: "ToLower ?m (UsernameType ?c) = ''vaultsecret''" by code_simp
  have p: "ToLower ?m (PasswordType ?c) = [CHR 0xC3, CHR 0xA9]" by code_simp
  from vaultsecret_with_any_other_tag
         [where MapToLower = ?m and unmarshal = ?u and str = "''{}''" and cred = ?c
            and other = "[CHR 0xC3, CHR 0xA9]"] u p
  show ?thesis by simp
qed

section \<open>Properties of the digest resolution\<close>

text \<open>
  Every call of \<open>PopulateDigest\<close> ends in one of three ways: a short circuit (no error, the
  world as it was); an error before the resolver is called, from the credential table or
  from the reference parser (the world as it was); or one call of the resolver, which is
  logged, and whose result decides between an error with the reference untouched and a
  success with the digest stored.
\<close>

lemma PopulateDigest_cases:
  "PopulateDigest nb Parse Resolve ctx w = (res, w') \<Longrightarrow>
   (res = None \<and> w' = w \<and>
      (target w = None \<or>
       (\<exists>ref. target w = Some ref \<and> (Digest ref \<noteq> '''' \<or> Reference ref = nb)))) \<or>
   (\<exists>ref e. target w = Some ref \<and> Digest ref = '''' \<and> Reference ref \<noteq> nb \<and>
      res = Some e \<and> w' = w \<and>
      (resolverOptions (receiver w) ref = Inl e \<or>
       (\<exists>opts. resolverOptions (receiver w) ref = Inr opts \<and>
          getReferencePath Parse ref = Inl e))) \<or>
   (\<exists>ref opts imageRef. target w = Some ref \<and> Digest ref = '''' \<and> Reference ref \<noteq> nb \<and>
      resolverOptions (receiver w) ref = Inr opts \<and>
      getReferencePath Parse ref = Inr imageRef \<and>
      ((\<exists>err. Resolve ctx opts imageRef = Inl err \<and>
          res = Some (errFailedToResolve (Reference ref) err) \<and>
          w' = w\<lparr>resolveCalls := resolveCalls w @ [(ctx, opts, imageRef)]\<rparr>) \<or>
       (\<exists>dgst. Resolve ctx opts imageRef = Inr dgst \<and> res = None \<and>
          w' = w\<lparr>resolveCalls := resolveCalls w @ [(ctx, opts, imageRef)],
                 target := Some (ref\<lparr>Digest := dgst\<rparr>)\<rparr>)))"
  unfolding PopulateDigest_def Let_def
  by (auto split: option.splits sum.splits if_splits)

text \<open>
  Once the short-circuit checks, the credential table and the parser are passed, the
  outcome is decided by the one call of the resolver.
\<close>

lemma PopulateDigest_resolve_step:
  assumes "target w = Some ref" and "Digest ref = ''''"
    and "Reference ref \<noteq> nb"
    and "resolverOptions (receiver w) ref = Inr opts"
    and "getReferencePath Parse ref = Inr imageRef"
  shows "PopulateDigest nb Parse Resolve ctx w =
           (case Resolve ctx opts imageRef of
              Inl err \<Rightarrow>
                (Some (errFailedToResolve (Reference ref) err),
                 w\<lparr>resolveCalls := resolveCalls w @ [(ctx, opts, imageRef)]\<rparr>)
            | Inr dgst \<Rightarrow>
                (None,
                 w\<lparr>resolveCalls := resolveCalls w @ [(ctx, opts, imageRef)],
                   target := Some (ref\<lparr>Digest := dgst\<rparr>)\<rparr>))"
  using assms by (simp add: PopulateDigest_def Let_def split: sum.splits)

text \<open>
  C6. When the pointer is nil, or the digest of the reference is already non-empty, or
  its reference string is the no-base-image marker, the call returns no error and the
  world is exactly as before: no field of the reference has changed (a digest already
  set is the same) and the log of resolver calls has not grown. A second call on the
  world the first one left, with any parser, resolver and context, does the same.
\<close>

theorem PopulateDigest_short_circuit:
  assumes "target w = None \<or>
           (\<exists>ref. target w = Some ref \<and>
              (Digest ref \<noteq> '''' \<or> Reference ref = NoBaseImageSpecifierLatest))"
  shows "PopulateDigest NoBaseImageSpecifierLatest Parse Resolve ctx w = (None, w) \<and>
         PopulateDigest NoBaseImageSpecifierLatest Parse' Resolve' ctx'
           (snd (PopulateDigest NoBaseImageSpecifierLatest Parse Resolve ctx w)) = (None, w)"
  using assms unfolding PopulateDigest_def
  by (auto split: option.splits)

theorem PopulateDigest_short_circuit_witness:
  "PopulateDigest ''scratch'' (\<lambda>s. Inr s) (\<lambda>c opts r. Inr ''sha256:ff'') ()
     \<lparr>receiver = \<lparr>registryCreds = Map.empty\<rparr>,
      target = Some \<lparr>Reference.Registry = ''r.io'', Repository = ''app'', Tag = ''v1'',
                     Digest = ''sha256:0a'', Reference = ''r.io/app:v1''\<rparr>,
      resolveCalls = []\<rparr> =
   (None,
     \<lparr>receiver = \<lparr>registryCreds = Map.empty\<rparr>,
      target = Some \<lparr>Reference.Registry = ''r.io'', Repository = ''app'', Tag = ''v1'',
                     Digest = ''sha256:0a'', Reference = ''r.io/app:v1''\<rparr>,
      resolveCalls = []\<rparr>)"
proof -
  let ?w = "\<lparr>receiver = \<lparr>registryCreds = Map.empty\<rparr>,
      target = Some \<lparr>Reference.Registry = ''r.io'', Repository = ''app'', Tag = ''v1'',
                     Digest = ''sha256:0a'', Reference = ''r.io/app:v1''\<rparr>,
      resolveCalls = ([] :: (unit \<times> ResolverOptions \<times> string) list)\<rparr>"
  from PopulateDigest_short_circuit
         [of ?w "''scratch''" "\<lambda>s. Inr s" "\<lambda>c opts r. Inr ''sha256:ff''" "()"]
  show ?thesis by simp
qed

text \<open>
  C7. When the call passes the three short-circuit checks and the credential table has an
  entry for the registry of the reference whose resolved username or resolved password
  is empty, the call returns the credential error naming that registry, and the world is
  exactly as before: in particular the log of resolver calls has not grown.
\<close>

theorem PopulateDigest_credential_failure:
  assumes "target w = Some ref"
    and "Digest ref = ''''"
    and "Reference ref \<noteq> NoBaseImageSpecifierLatest"
    and "registryCreds (receiver w) (Reference.Registry ref) = Some cred"
    and "ResolvedValue (RegistryLoginCredential.Username cred) = '''' \<or>
         ResolvedValue (RegistryLoginCredential.Password cred) = ''''"
  shows "PopulateDigest NoBaseImageSpecifierLatest Parse Resolve ctx w =
           (Some (errFetchingCredentials (Reference.Registry ref)), w)"
  using assms unfolding PopulateDigest_def resolverOptions_def
  by auto

theorem PopulateDigest_credential_failure_witness:
  "PopulateDigest ''scratch'' (\<lambda>s. Inr s) (\<lambda>c opts r. Inr ''sha256:ff'') ()
     \<lparr>receiver = \<lparr>registryCreds =
        [''r.io'' \<mapsto> \<lparr>RegistryLoginCredential.Username = \<lparr>ResolvedValue = ''u''\<rparr>,
                      Password = \<lparr>ResolvedValue = ''''\<rparr>\<rparr>]\<rparr>,
      target = Some \<lparr>Reference.Registry = ''r.io'', Repository = ''app'', Tag = '''',
                     Digest = '''', Reference = ''r.io/app''\<rparr>,
      resolveCalls = []\<rparr> =
   (Some (errFetchingCredentials ''r.io''),
     \<lparr>receiver = \<lparr>registryCreds =
        [''r.io'' \<mapsto> \<lparr>RegistryLoginCredential.Username = \<lparr>ResolvedValue = ''u''\<rparr>,
                      Password = \<lparr>ResolvedValue = ''''\<rparr>\<rparr>]\<rparr>,
      target = Some \<lparr>Reference.Registry = ''r.io'', Repository = ''app'', Tag = '''',
                     Digest = '''', Reference = ''r.io/app''\<rparr>,
      resolveCalls = []\<rparr>)"
proof -
  let ?cred = "\<lparr>RegistryLoginCredential.Username = \<lparr>ResolvedValue = ''u''\<rparr>,
                Password = \<lparr>ResolvedValue = ''''\<rparr>\<rparr>"
  let ?ref = "\<lparr>Reference.Registry = ''r.io'', Repository = ''app'', Tag = '''',
               Digest = '''', Reference = ''r.io/app''\<rparr>"
  let ?w = "\<lparr>receiver = \<lparr>registryCreds = [''r.io'' \<mapsto> ?cred]\<rparr>,
             target = Some ?ref,
             resolveCalls = ([] :: (unit \<times> ResolverOptions \<times> string) list)\<rparr>"
  from PopulateDigest_credential_failure
         [of ?w ?ref "''scratch''" ?cred "\<lambda>s. Inr s" "\<lambda>c opts r. Inr ''sha256:ff''" "()"]
  show ?thesis by simp
qed

text \<open>
  C8. The digest is stored when, and only when, the resolver has succeeded. A call that
  passes the short-circuit checks, finds usable options and a parsable reference, and
  whose resolver call returns a digest, returns no error, logs that one resolver call and
  leaves the old reference with that digest stored; if the resolver call fails instead,
  the call returns the resolution error and logs the call, the reference untouched. If
  the call returns an error (from the credentials, the parser or the resolver), the
  reference is the one it was, and its digest is empty. If the reference has changed,
  then the call returned no error, the resolver was called once in this call (one entry
  was added to the log), it returned a digest, and the new reference is the old one with
  that digest stored.
\<close>

theorem PopulateDigest_digest_atomic:
  assumes "PopulateDigest NoBaseImageSpecifierLatest Parse Resolve ctx w = (res, w')"
  shows "(\<forall>ref opts imageRef dgst.
            target w = Some ref \<and> Digest ref = '''' \<and>
            Reference ref \<noteq> NoBaseImageSpecifierLatest \<and>
            resolverOptions (receiver w) ref = Inr opts \<and>
            getReferencePath Parse ref = Inr imageRef \<and>
            Resolve ctx opts imageRef = Inr dgst \<longrightarrow>
              res = None \<and>
              w' = w\<lparr>resolveCalls := resolveCalls w @ [(ctx, opts, imageRef)],
                     target := Some (ref\<lparr>Digest := dgst\<rparr>)\<rparr>) \<and>
         (\<forall>ref opts imageRef err.
            target w = Some ref \<and> Digest ref = '''' \<and>
            Reference ref \<noteq> NoBaseImageSpecifierLatest \<and>
            resolverOptions (receiver w) ref = Inr opts \<and>
            getReferencePath Parse ref = Inr imageRef \<and>
            Resolve ctx opts imageRef = Inl err \<longrightarrow>
              res = Some (errFailedToResolve (Reference ref) err) \<and>
              w' = w\<lparr>resolveCalls := resolveCalls w @ [(ctx, opts, imageRef)]\<rparr>) \<and>
         (res \<noteq> None \<longrightarrow>
            target w' = target w \<and>
            (\<exists>ref. target w' = Some ref \<and> Digest ref = '''')) \<and>
         (target w' \<noteq> target w \<longrightarrow>
            res = None \<and>
            (\<exists>ref opts imageRef dgst.
               target w = Some ref \<and> Digest ref = '''' \<and>
               resolverOptions (receiver w) ref = Inr opts \<and>
               getReferencePath Parse ref = Inr imageRef \<and>
               Resolve ctx opts imageRef = Inr dgst \<and>
               target w' = Some (ref\<lparr>Digest := dgst\<rparr>) \<and>
               resolveCalls w' = resolveCalls w @ [(ctx, opts, imageRef)]))"
proof -
  have stored: "res = None \<and>
                w' = w\<lparr>resolveCalls := resolveCalls w @ [(ctx, opts, imageRef)],
                       target := Some (ref\<lparr>Digest := dgst\<rparr>)\<rparr>"
    if "target w = Some ref" "Digest ref = ''''"
       "Reference ref \<noteq> NoBaseImageSpecifierLatest"
       "resolverOptions (receiver w) ref = Inr opts"
       "getReferencePath Parse ref = Inr imageRef"
       "Resolve ctx opts imageRef = Inr dgst"
    for ref opts imageRef dgst
  proof -
    from PopulateDigest_resolve_step [OF that(1-5), of Resolve ctx] that(6)
    have "PopulateDigest NoBaseImageSpecifierLatest Parse Resolve ctx w =
            (None, w\<lparr>resolveCalls := resolveCalls w @ [(ctx, opts, imageRef)],
                     target := Some (ref\<lparr>Digest := dgst\<rparr>)\<rparr>)"
      by simp
    with assms show ?thesis by simp
  qed
  have failed: "res = Some (errFailedToResolve (Reference ref) err) \<and>
                w' = w\<lparr>resolveCalls := resolveCalls w @ [(ctx, opts, imageRef)]\<rparr>"
    if "target w = Some ref" "Digest ref = ''''"
       "Reference ref \<noteq> NoBaseImageSpecifierLatest"
       "resolverOptions (receiver w) ref = Inr opts"
       "getReferencePath Parse ref = Inr imageRef"
       "Resolve ctx opts imageRef = Inl err"
    for ref opts imageRef err
  proof -
    from PopulateDigest_resolve_step [OF that(1-5), of Resolve ctx] that(6)
    have "PopulateDigest NoBaseImageSpecifierLatest Parse Resolve ctx w =
            (Some (errFailedToResolve (Reference ref) err),
             w\<lparr>resolveCalls := resolveCalls w @ [(ctx, opts, imageRef)]\<rparr>)"
      by simp
    with assms show ?thesis by simp
  qed
  have on_error: "target w' = target w \<and> (\<exists>ref. target w' = Some ref \<and> Digest ref = '''')"
    if "res \<noteq> None"
    using PopulateDigest_cases [OF assms] that by auto
  have on_change: "res = None \<and>
            (\<exists>ref opts imageRef dgst.
               target w = Some ref \<and> Digest ref = '''' \<and>
               resolverOptions (receiver w) ref = Inr opts \<and>
               getReferencePath Parse ref = Inr imageRef \<and>
               Resolve ctx opts imageRef = Inr dgst \<and>
               target w' = Some (ref\<lparr>Digest := dgst\<rparr>) \<and>
               resolveCalls w' = resolveCalls w @ [(ctx, opts, imageRef)])"
    if "target w' \<noteq> target w"
    using PopulateDigest_cases [OF assms] that by auto
  from stored failed on_error on_change show ?thesis by blast
qed

theorem PopulateDigest_digest_atomic_witness:
  "PopulateDigest ''scratch'' (\<lambda>s. Inr s) (\<lambda>c opts r. Inr ''sha256:ff'') ()
     \<lparr>receiver = \<lparr>registryCreds = Map.empty\<rparr>,
      target = Some \<lparr>Reference.Registry = ''r.io'', Repository = ''app'', Tag = '''',
                     Digest = '''', Reference = ''r.io/app''\<rparr>,
      resolveCalls = []\<rparr> =
   (None,
    \<lparr>receiver = \<lparr>registryCreds = Map.empty\<rparr>,
     target = Some \<lparr>Reference.Registry = ''r.io'', Repository = ''app'', Tag = '''',
                    Digest = ''sha256:ff'', Reference = ''r.io/app''\<rparr>,
     resolveCalls = [((), \<lparr>Credentials = None\<rparr>, ''r.io/app:latest'')]\<rparr>) \<and>
   PopulateDigest ''scratch'' (\<lambda>s. Inr s) (\<lambda>c opts r. Inl ''context canceled'') ()
     \<lparr>receiver = \<lparr>registryCreds = Map.empty\<rparr>,
      target = Some \<lparr>Reference.Registry = ''r.io'', Repository = ''app'', Tag = '''',
                     Digest = '''', Reference = ''r.io/app''\<rparr>,
      resolveCalls = []\<rparr> =
   (Some (errFailedToResolve ''r.io/app'' ''context canceled''),
    \<lparr>receiver = \<lparr>registryCreds = Map.empty\<rparr>,
     target = Some \<lparr>Reference.Registry = ''r.io'', Repository = ''app'', Tag = '''',
                    Digest = '''', Reference = ''r.io/app''\<rparr>,
     resolveCalls = [((), \<lparr>Credentials = None\<rparr>, ''r.io/app:latest'')]\<rparr>)"
proof -
  let ?ref = "\<lparr>Reference.Registry = ''r.io'', Repository = ''app'', Tag = '''',
               Digest = '''', Reference = ''r.io/app''\<rparr>"
  let ?w = "\<lparr>receiver = \<lparr>registryCreds = Map.empty\<rparr>,
             target = Some ?ref,
             resolveCalls = ([] :: (unit \<times> ResolverOptions \<times> string) list)\<rparr>"
  let ?P = "\<lambda>s::string. (Inr s :: string + string)"
  let ?ok = "\<lambda>(c::unit) (opts::ResolverOptions) (r::string). (Inr ''sha256:ff'' :: string + string)"
  let ?ko = "\<lambda>(c::unit) (opts::ResolverOptions) (r::string).
               (Inl ''context canceled'' :: string + string)"
  let ?good = "PopulateDigest ''scratch'' ?P ?ok () ?w"
  let ?bad = "PopulateDigest ''scratch'' ?P ?ko () ?w"
  let ?opts = "\<lparr>Credentials = None\<rparr>"
  have pre: "target ?w = Some ?ref \<and> Digest ?ref = '''' \<and> Reference ?ref \<noteq> ''scratch'' \<and>
             resolverOptions (receiver ?w) ?ref = Inr ?opts \<and>
             getReferencePath ?P ?ref = Inr ''r.io/app:latest''"
    by (simp add: resolverOptions_def getReferencePath_def)
  have good: "?good = (fst ?good, snd ?good)" by (rule prod.collapse [symmetric])
  have bad: "?bad = (fst ?bad, snd ?bad)" by (rule prod.collapse [symmetric])
  from PopulateDigest_digest_atomic [OF good]
  have "target ?w = Some ?ref \<and> Digest ?ref = '''' \<and> Reference ?ref \<noteq> ''scratch'' \<and>
        resolverOptions (receiver ?w) ?ref = Inr ?opts \<and>
        getReferencePath ?P ?ref = Inr ''r.io/app:latest'' \<and>
        ?ok () ?opts ''r.io/app:latest'' = Inr ''sha256:ff'' \<longrightarrow>
        fst ?good = None \<and>
        snd ?good = ?w\<lparr>resolveCalls := resolveCalls ?w @ [((), ?opts, ''r.io/app:latest'')],
                       target := Some (?ref\<lparr>Digest := ''sha256:ff''\<rparr>)\<rparr>"
    by blast
  with pre have g: "fst ?good = None \<and>
        snd ?good = ?w\<lparr>resolveCalls := resolveCalls ?w @ [((), ?opts, ''r.io/app:latest'')],
                       target := Some (?ref\<lparr>Digest := ''sha256:ff''\<rparr>)\<rparr>"
    by blast
  from PopulateDigest_digest_atomic [OF bad]
  have "target ?w = Some ?ref \<and> Digest ?ref = '''' \<and> Reference ?ref \<noteq> ''scratch'' \<and>
        resolverOptions (receiver ?w) ?ref = Inr ?opts \<and>
        getReferencePath ?P ?ref = Inr ''r.io/app:latest'' \<and>
        ?ko () ?opts ''r.io/app:latest'' = Inl ''context canceled'' \<longrightarrow>
        fst ?bad = Some (errFailedToResolve (Reference ?ref) ''context canceled'') \<and>
        snd ?bad = ?w\<lparr>resolveCalls := resolveCalls ?w @ [((), ?opts, ''r.io/app:latest'')]\<rparr>"
    by blast
  with pre have b: "fst ?bad = Some (errFailedToResolve (Reference ?ref) ''context canceled'') \<and>
        snd ?bad = ?w\<lparr>resolveCalls := resolveCalls ?w @ [((), ?opts, ''r.io/app:latest'')]\<rparr>"
    by blast
  have gs: "?good = (None, ?w\<lparr>resolveCalls := resolveCalls ?w @ [((), ?opts, ''r.io/app:latest'')],
                       target := Some (?ref\<lparr>Digest := ''sha256:ff''\<rparr>)\<rparr>)"
    using g by (simp only: prod_eq_iff fst_conv snd_conv)
  have bs: "?bad = (Some (errFailedToResolve (Reference ?ref) ''context canceled''),
                    ?w\<lparr>resolveCalls := resolveCalls ?w @ [((), ?opts, ''r.io/app:latest'')]\<rparr>)"
    using b by (simp only: prod_eq_iff fst_conv snd_conv)
  from gs bs show ?thesis by simp
qed

text \<open>
  C10. Whatever the outcome of the call, the receiver with its credential table is the
  one it was; a nil pointer stays nil; and the reference after the call is the reference
  before the call up to its digest: registry, repository, tag and reference string are
  unchanged.
\<close>

theorem PopulateDigest_frame:
  assumes "PopulateDigest NoBaseImageSpecifierLatest Parse Resolve ctx w = (res, w')"
  shows "receiver w' = receiver w \<and>
         (target w = None \<longrightarrow> target w' = None) \<and>
         (\<forall>ref. target w = Some ref \<longrightarrow>
            (\<exists>ref'. target w' = Some ref' \<and>
               ref' = ref\<lparr>Digest := Digest ref'\<rparr> \<and>
               Reference.Registry ref' = Reference.Registry ref \<and>
               Repository ref' = Repository ref \<and>
               Tag ref' = Tag ref \<and>
               Reference ref' = Reference ref))"
  using PopulateDigest_cases [OF assms] by auto

theorem PopulateDigest_frame_witness:
  "snd (PopulateDigest ''scratch'' (\<lambda>s. Inr s) (\<lambda>c opts r. Inr ''sha256:ff'') ()
     \<lparr>receiver = \<lparr>registryCreds = Map.empty\<rparr>,
      target = Some \<lparr>Reference.Registry = ''r.io'', Repository = ''app'', Tag = '''',
                     Digest = '''', Reference = ''r.io/app''\<rparr>,
      resolveCalls = []\<rparr>) =
     \<lparr>receiver = \<lparr>registryCreds = Map.empty\<rparr>,
      target = Some \<lparr>Reference.Registry = ''r.io'', Repository = ''app'', Tag = '''',
                     Digest = ''sha256:ff'', Reference = ''r.io/app''\<rparr>,
      resolveCalls = [((), \<lparr>Credentials = None\<rparr>, ''r.io/app:latest'')]\<rparr>"
proof -
  let ?ref = "\<lparr>Reference.Registry = ''r.io'', Repository = ''app'', Tag = '''',
               Digest = '''', Reference = ''r.io/app''\<rparr>"
  let ?w = "\<lparr>receiver = \<lparr>registryCreds = Map.empty\<rparr>,
             target = Some ?ref,
             resolveCalls = ([] :: (unit \<times> ResolverOptions \<times> string) list)\<rparr>"
  let ?run = "PopulateDigest ''scratch'' (\<lambda>s. Inr s) (\<lambda>c opts r. Inr ''sha256:ff'') () ?w"
  have run: "?run = (fst ?run, snd ?run)" by simp
  from PopulateDigest_frame [OF run] show ?thesis
    by (simp add: PopulateDigest_def resolverOptions_def getReferencePath_def)
qed

end
